theory Spec2Isabelle
  imports Complex_Main
begin

section \<open>Numbers, errors and name resolution\<close>

text \<open>
  Python exceptions raised by the modelled code are values of \<open>error\<close>; a call that can
  raise returns \<open>error + 'a\<close> with \<open>Inl\<close> for the exception. \<open>InvalidInput\<close> and
  \<open>UnsupportedConfiguration\<close> are the error kinds named by the specification.
\<close>

datatype error =
    NameError string
  | ValueError
  | ZeroDivisionError
  | InvalidInput
  | UnsupportedConfiguration

text \<open>
  A floating-point number is a real, one of the two infinities, or NaN. Finite doubles are
  idealised as reals: rounding, overflow of finite operations and the sign of zero are not
  represented. What is kept is everything the control flow of the code depends on: NaN
  propagates through arithmetic, every ordering comparison with NaN is false, and division
  distinguishes NumPy's behaviour (a zero divisor yields an infinity or NaN) from that of a
  Python float (a zero divisor raises \<open>ZeroDivisionError\<close>).
\<close>

datatype pyfloat = Fl real | PInf | NInf | NaN

fun fneg :: "pyfloat \<Rightarrow> pyfloat" where
  "fneg (Fl a) = Fl (- a)"
| "fneg PInf = NInf"
| "fneg NInf = PInf"
| "fneg NaN = NaN"

fun fadd :: "pyfloat \<Rightarrow> pyfloat \<Rightarrow> pyfloat" where
  "fadd NaN y = NaN"
| "fadd x NaN = NaN"
| "fadd (Fl a) (Fl b) = Fl (a + b)"
| "fadd PInf NInf = NaN"
| "fadd NInf PInf = NaN"
| "fadd PInf y = PInf"
| "fadd NInf y = NInf"
| "fadd (Fl a) y = y"

definition fsub :: "pyfloat \<Rightarrow> pyfloat \<Rightarrow> pyfloat" where
  "fsub x y = fadd x (fneg y)"

fun fgt :: "pyfloat \<Rightarrow> pyfloat \<Rightarrow> bool" where
  "fgt NaN y = False"
| "fgt x NaN = False"
| "fgt (Fl a) (Fl b) = (b < a)"
| "fgt x PInf = False"
| "fgt PInf y = True"
| "fgt NInf y = False"
| "fgt (Fl a) NInf = True"

fun fle :: "pyfloat \<Rightarrow> pyfloat \<Rightarrow> bool" where
  "fle NaN y = False"
| "fle x NaN = False"
| "fle (Fl a) (Fl b) = (a \<le> b)"
| "fle x PInf = True"
| "fle NInf y = True"
| "fle PInf y = False"
| "fle (Fl a) NInf = False"

text \<open>\<open>x ** 2\<close> on a float.\<close>

fun fsq :: "pyfloat \<Rightarrow> pyfloat" where
  "fsq (Fl a) = Fl (a * a)"
| "fsq PInf = PInf"
| "fsq NInf = PInf"
| "fsq NaN = NaN"

text \<open>
  Division as NumPy performs it on arrays and NumPy scalars: no exception, a zero divisor
  gives a signed infinity, or NaN for \<open>0 / 0\<close>.
\<close>

fun np_div :: "pyfloat \<Rightarrow> pyfloat \<Rightarrow> pyfloat" where
  "np_div NaN y = NaN"
| "np_div x NaN = NaN"
| "np_div (Fl a) (Fl b) =
     (if b \<noteq> 0 then Fl (a / b) else if 0 < a then PInf else if a < 0 then NInf else NaN)"
| "np_div (Fl a) y = Fl 0"
| "np_div PInf (Fl b) = (if 0 \<le> b then PInf else NInf)"
| "np_div NInf (Fl b) = (if 0 \<le> b then NInf else PInf)"
| "np_div x y = NaN"

text \<open>Division of two Python floats: a zero divisor raises.\<close>

definition py_div :: "pyfloat \<Rightarrow> pyfloat \<Rightarrow> error + pyfloat" where
  "py_div x y = (if y = Fl 0 then Inl ZeroDivisionError else Inr (np_div x y))"

text \<open>\<open>np.maximum\<close>: the larger of the two, NaN if either is NaN.\<close>

fun np_maximum :: "pyfloat \<Rightarrow> pyfloat \<Rightarrow> pyfloat" where
  "np_maximum NaN y = NaN"
| "np_maximum x NaN = NaN"
| "np_maximum x y = (if fgt x y then x else y)"

text \<open>
  \<open>ndarray.mean()\<close> of a one-dimensional array: the sum divided by the number of
  elements, which is \<open>0 / 0 = NaN\<close> for an empty array. A Boolean array is averaged as
  zeros and ones.
\<close>

definition np_mean :: "pyfloat list \<Rightarrow> pyfloat" where
  "np_mean xs = np_div (foldl fadd (Fl 0) xs) (Fl (real (length xs)))"

definition np_mean_bool :: "bool list \<Rightarrow> pyfloat" where
  "np_mean_bool bs = np_mean (map (\<lambda>b. Fl (if b then 1 else 0)) bs)"

text \<open>
  Name resolution. A name used in a function body that the function never assigns is looked
  up at run time among the function's parameters and locals, then at module level, then
  among the builtins; a name bound nowhere raises \<open>NameError\<close>. The scope of a function is
  an association list from the names bound where the name is used to their values.
\<close>

definition load_name :: "(string \<times> 'v) list \<Rightarrow> string \<Rightarrow> error + 'v" where
  "load_name scope n = (case map_of scope n of None \<Rightarrow> Inl (NameError n) | Some v \<Rightarrow> Inr v)"

definition bind_err :: "error + 'a \<Rightarrow> ('a \<Rightarrow> error + 'b) \<Rightarrow> error + 'b" where
  "bind_err r f = (case r of Inl e \<Rightarrow> Inl e | Inr v \<Rightarrow> f v)"

section \<open>The binomial model (\<open>cprior/binomial.py\<close>)\<close>

text \<open>
  \<open>BinomialModel\<close> extends \<open>BetaModel\<close>, whose source is not part of the development;
  the two attributes \<open>update\<close> works on, \<open>_alpha_posterior\<close> and \<open>_beta_posterior\<close>,
  form the base record, and the constructor of the base class is a parameter of
  \<open>BinomialModel_init\<close>. Hyperparameters are "int or float" in the source; they range
  over an arbitrary ring \<open>'a\<close> here (the integers for the default priors, the reals as
  idealised floats). Observations are counts, Python integers. The attribute \<open>m\<close> is the
  field \<open>m_trials\<close>.
\<close>

record 'a BetaModel =
  alpha_posterior :: 'a
  beta_posterior :: 'a

record 'a BinomialModel = "'a BetaModel" +
  m_trials :: int

text \<open>
  \<open>__init__(self, m, alpha=1, beta=1)\<close>: the arguments of the call
  \<open>super().__init__(alpha, neta)\<close> are evaluated from left to right before the base
  constructor runs; the names bound to numbers at that point are the parameters
  \<open>m\<close>, \<open>alpha\<close> and \<open>beta\<close>. The module binds \<open>np\<close>, \<open>special\<close>, \<open>BetaABTest\<close>,
  \<open>BetaModel\<close>, \<open>check_models\<close>, \<open>BinomialModel\<close> and \<open>BinomialABTest\<close> at top level.
\<close>

definition BinomialModel_init ::
  "('a \<Rightarrow> 'a \<Rightarrow> error + 'a BetaModel) \<Rightarrow> int \<Rightarrow> 'a::ring_1 \<Rightarrow> 'a \<Rightarrow> error + 'a BinomialModel" where
  "BinomialModel_init BetaModel_init m alpha beta =
     (let scope = [(''m'', of_int m), (''alpha'', alpha), (''beta'', beta)] in
      bind_err (load_name scope ''alpha'') (\<lambda>a.
      bind_err (load_name scope ''neta'') (\<lambda>b.
      bind_err (BetaModel_init a b) (\<lambda>base.
        Inr \<lparr>alpha_posterior = alpha_posterior base,
             beta_posterior = beta_posterior base,
             m_trials = m\<rparr>))))"


section \<open>The normal-inverse-gamma distribution and model (\<open>cprior/cdist/normal_inverse_gamma.py\<close>)\<close>

record NormalInverseGamma =
  loc :: pyfloat
  variance_scale :: pyfloat
  shape :: pyfloat
  scale :: pyfloat

text \<open>
  \<open>NormalInverseGamma.__init__\<close>: the three checks \<open>\<dots> <= 0\<close>, in the order
  \<open>variance_scale\<close>, \<open>shape\<close>, \<open>scale\<close>, each raising \<open>ValueError\<close>.
\<close>

definition NormalInverseGamma_init ::
  "pyfloat \<Rightarrow> pyfloat \<Rightarrow> pyfloat \<Rightarrow> pyfloat \<Rightarrow> error + NormalInverseGamma" where
  "NormalInverseGamma_init loc' variance_scale' shape' scale' =
     (if fle variance_scale' (Fl 0) then Inl ValueError
      else if fle shape' (Fl 0) then Inl ValueError
      else if fle scale' (Fl 0) then Inl ValueError
      else Inr \<lparr>loc = loc', variance_scale = variance_scale', shape = shape', scale = scale'\<rparr>)"

text \<open>
  \<open>mean\<close> and \<open>var\<close>. The attributes are Python floats, so each \<open>/\<close> is \<open>py_div\<close>, which
  raises on a zero divisor. \<open>OverflowError\<close> of \<open>**\<close> on huge finite floats is outside the
  idealisation of finite floats as reals.
\<close>

definition NormalInverseGamma_mean :: "NormalInverseGamma \<Rightarrow> error + (pyfloat \<times> pyfloat)" where
  "NormalInverseGamma_mean self =
     (let x_mean = loc self in
      bind_err (if fgt (shape self) (Fl 1)
                then py_div (scale self) (fsub (shape self) (Fl 1))
                else Inr NaN) (\<lambda>sig2_mean.
      Inr (x_mean, sig2_mean)))"

definition NormalInverseGamma_var :: "NormalInverseGamma \<Rightarrow> error + (pyfloat \<times> pyfloat)" where
  "NormalInverseGamma_var self =
     bind_err (if fgt (shape self) (Fl 1)
               then bind_err (py_div (scale self) (fsub (shape self) (Fl 1)))
                      (\<lambda>q. py_div q (variance_scale self))
               else Inr NaN) (\<lambda>x_var.
     bind_err (if fgt (shape self) (Fl 2)
               then bind_err (py_div (fsq (scale self)) (fsq (fsub (shape self) (Fl 1))))
                      (\<lambda>q. py_div q (fsub (shape self) (Fl 2)))
               else Inr NaN) (\<lambda>sig2_var.
     Inr (x_var, sig2_var)))"

text \<open>
  Random sampling. The pseudo-random source and the SciPy special functions are external
  to the code and are parameters of the model, collected in a record: \<open>stats.norm.cdf\<close>,
  \<open>np.hypot\<close>, \<open>special.betainc\<close>, \<open>np.sqrt\<close> and the generator. A generator state has
  the abstract type \<open>'g\<close>; \<open>seeded s\<close> is the state of a fresh generator created from the
  integer seed \<open>s\<close>; \<open>invgamma_draw a scale\<close> and \<open>norm_draw loc scale\<close> draw one variate
  and advance the generator.
\<close>

record 'g primitives =
  norm_cdf :: "pyfloat \<Rightarrow> pyfloat"
  np_hypot :: "pyfloat \<Rightarrow> pyfloat \<Rightarrow> pyfloat"
  betainc :: "pyfloat \<Rightarrow> pyfloat \<Rightarrow> pyfloat \<Rightarrow> pyfloat"
  np_sqrt :: "pyfloat \<Rightarrow> pyfloat"
  seeded :: "int \<Rightarrow> 'g"
  invgamma_draw :: "pyfloat \<Rightarrow> pyfloat \<Rightarrow> 'g \<Rightarrow> pyfloat \<times> 'g"
  norm_draw :: "pyfloat \<Rightarrow> pyfloat \<Rightarrow> 'g \<Rightarrow> pyfloat \<times> 'g"

text \<open>
  \<open>random_state\<close> is an integer seed or \<open>None\<close>. With a seed, SciPy draws from a fresh
  generator created from it and the process-wide generator is untouched; with \<open>None\<close> it
  draws from the process-wide generator, whose state \<open>g\<close> advances.
\<close>

definition with_random_state ::
  "'g primitives \<Rightarrow> int option \<Rightarrow> ('g \<Rightarrow> 'r \<times> 'g) \<Rightarrow> 'g \<Rightarrow> 'r \<times> 'g" where
  "with_random_state P random_state draw g =
     (case random_state of
        None \<Rightarrow> draw g
      | Some seed \<Rightarrow> (fst (draw (seeded P seed)), g))"

text \<open>\<open>size\<close> inverse-gamma variates, and one normal variate for each entry of an array of scales.\<close>

fun invgamma_rvs :: "'g primitives \<Rightarrow> pyfloat \<Rightarrow> pyfloat \<Rightarrow> nat \<Rightarrow> 'g \<Rightarrow> pyfloat list \<times> 'g" where
  "invgamma_rvs P a s 0 g = ([], g)"
| "invgamma_rvs P a s (Suc n) g =
     (let (v, g1) = invgamma_draw P a s g;
          (vs, g2) = invgamma_rvs P a s n g1
      in (v # vs, g2))"

fun norm_rvs :: "'g primitives \<Rightarrow> pyfloat \<Rightarrow> pyfloat list \<Rightarrow> 'g \<Rightarrow> pyfloat list \<times> 'g" where
  "norm_rvs P l [] g = ([], g)"
| "norm_rvs P l (s # ss) g =
     (let (v, g1) = norm_draw P l s g;
          (vs, g2) = norm_rvs P l ss g1
      in (v # vs, g2))"

text \<open>
  \<open>NormalInverseGamma.rvs\<close>: the scale-like component first, then the location conditioned
  on it, both with the same \<open>random_state\<close>; \<open>np.c_\<close> pairs them row by row.
\<close>

definition NormalInverseGamma_rvs ::
  "'g primitives \<Rightarrow> NormalInverseGamma \<Rightarrow> nat \<Rightarrow> int option \<Rightarrow> 'g \<Rightarrow> (pyfloat \<times> pyfloat) list \<times> 'g" where
  "NormalInverseGamma_rvs P self size' random_state g =
     (let (sig2_rv, g1) =
            with_random_state P random_state (invgamma_rvs P (shape self) (scale self) size') g;
          (x_rv, g2) =
            with_random_state P random_state
              (norm_rvs P (loc self) (map (\<lambda>s. np_sqrt P (np_div s (variance_scale self))) sig2_rv)) g1
      in (zip x_rv sig2_rv, g2))"

text \<open>
  \<open>NormalInverseGammaModel\<close>. The attributes \<open>loc\<close>, \<open>variance_scale\<close>, \<open>shape\<close> and
  \<open>scale\<close> of the model are the fields \<open>prior_\<dots>\<close>. The constructor of the base class
  \<open>BayesModel\<close> is not part of the development and is a parameter.
\<close>

record NormalInverseGammaModel =
  name :: string
  prior_loc :: pyfloat
  prior_variance_scale :: pyfloat
  prior_shape :: pyfloat
  prior_scale :: pyfloat
  loc_posterior :: pyfloat
  variance_scale_posterior :: pyfloat
  shape_posterior :: pyfloat
  scale_posterior :: pyfloat

definition NormalInverseGammaModel_init ::
  "(string \<Rightarrow> error + unit) \<Rightarrow> string \<Rightarrow> pyfloat \<Rightarrow> pyfloat \<Rightarrow> pyfloat \<Rightarrow> pyfloat
     \<Rightarrow> error + NormalInverseGammaModel" where
  "NormalInverseGammaModel_init BayesModel_init name' loc' variance_scale' shape' scale' =
     bind_err (BayesModel_init name') (\<lambda>_.
       if fle variance_scale' (Fl 0) then Inl ValueError
       else if fle shape' (Fl 0) then Inl ValueError
       else if fle scale' (Fl 0) then Inl ValueError
       else Inr \<lparr>name = name',
                 prior_loc = loc', prior_variance_scale = variance_scale',
                 prior_shape = shape', prior_scale = scale',
                 loc_posterior = loc', variance_scale_posterior = variance_scale',
                 shape_posterior = shape', scale_posterior = scale'\<rparr>)"

text \<open>The distribution built from the posterior parameters, as every method of the model does first.\<close>

definition posterior_distribution :: "NormalInverseGammaModel \<Rightarrow> error + NormalInverseGamma" where
  "posterior_distribution self =
     NormalInverseGamma_init (loc_posterior self) (variance_scale_posterior self)
       (shape_posterior self) (scale_posterior self)"

definition NormalInverseGammaModel_mean :: "NormalInverseGammaModel \<Rightarrow> error + (pyfloat \<times> pyfloat)" where
  "NormalInverseGammaModel_mean self = bind_err (posterior_distribution self) NormalInverseGamma_mean"

definition NormalInverseGammaModel_var :: "NormalInverseGammaModel \<Rightarrow> error + (pyfloat \<times> pyfloat)" where
  "NormalInverseGammaModel_var self = bind_err (posterior_distribution self) NormalInverseGamma_var"

text \<open>
  \<open>NormalInverseGammaModel.cdf(self, x)\<close>. Python evaluates the constructor call
  \<open>NormalInverseGamma(\<dots>)\<close> first, then the attribute \<open>.cdf\<close>, then the arguments
  \<open>x\<close> and \<open>sig2\<close> from left to right, and only then calls the method. The only array
  bound in the body is the parameter \<open>x\<close>; the module binds \<open>np\<close>, \<open>special\<close>, \<open>stats\<close>,
  \<open>BayesABTest\<close>, \<open>BayesModel\<close>, \<open>BayesMVTest\<close>, \<open>check_ab_method\<close>, \<open>check_mv_method\<close>
  and its four classes at top level. \<open>NormalInverseGamma.cdf\<close>, which is reached only
  after all arguments are evaluated, is the parameter \<open>dist_cdf\<close>.
\<close>

definition NormalInverseGammaModel_cdf ::
  "(NormalInverseGamma \<Rightarrow> pyfloat list \<Rightarrow> pyfloat list \<Rightarrow> error + pyfloat list)
     \<Rightarrow> NormalInverseGammaModel \<Rightarrow> pyfloat list \<Rightarrow> error + pyfloat list" where
  "NormalInverseGammaModel_cdf dist_cdf self x =
     (let scope = [(''x'', x)] in
      bind_err (posterior_distribution self) (\<lambda>d.
      bind_err (load_name scope ''x'') (\<lambda>x'.
      bind_err (load_name scope ''sig2'') (\<lambda>sig2'.
        dist_cdf d x' sig2'))))"

definition NormalInverseGammaModel_rvs ::
  "'g primitives \<Rightarrow> NormalInverseGammaModel \<Rightarrow> nat \<Rightarrow> int option \<Rightarrow> 'g
     \<Rightarrow> error + ((pyfloat \<times> pyfloat) list \<times> 'g)" where
  "NormalInverseGammaModel_rvs P self size' random_state g =
     bind_err (posterior_distribution self) (\<lambda>d.
       Inr (NormalInverseGamma_rvs P d size' random_state g))"

section \<open>The A/B test of two normal-inverse-gamma models\<close>

text \<open>
  Modelled from the spec: \<open>check_ab_method\<close> of \<open>cprior/cdist/utils.py\<close>, whose source is
  not part of the development. The specification gives one validation rule, shared by all
  operations of the comparator: \<open>lift > 0\<close> together with \<open>method = exact\<close> is invalid and
  fails with \<open>UnsupportedConfiguration\<close>.
\<close>

definition check_ab_method :: "string \<Rightarrow> string list \<Rightarrow> string \<Rightarrow> pyfloat \<Rightarrow> error + unit" where
  "check_ab_method method method_options variant lift =
     (if fgt lift (Fl 0) \<and> method = ''exact'' then Inl UnsupportedConfiguration else Inr ())"

text \<open>
  The attributes of the test object after construction (the constructor only calls the one
  of the base class \<open>BayesABTest\<close>, whose source is not part of the development).
\<close>

record NormalInverseGammaABTest =
  modelA :: NormalInverseGammaModel
  modelB :: NormalInverseGammaModel
  simulations :: nat
  random_state :: "int option"

text \<open>What a method returns: \<open>None\<close>, a pair, or a 4-tuple.\<close>

datatype pyresult =
    RNone
  | R2 pyfloat pyfloat
  | R4 pyfloat pyfloat pyfloat pyfloat

text \<open>
  The two array expressions of the Monte Carlo branches:
  \<open>(u > v + lift).mean()\<close> and \<open>np.maximum(u - v - lift, 0).mean()\<close>. The arrays are the
  columns of two sample matrices drawn with the same \<open>size\<close>, so they have equal lengths.
\<close>

definition mean_gt :: "pyfloat list \<Rightarrow> pyfloat list \<Rightarrow> pyfloat \<Rightarrow> pyfloat" where
  "mean_gt u v lift = np_mean_bool (map2 fgt u (map (\<lambda>y. fadd y lift) v))"

definition mean_max0 :: "pyfloat list \<Rightarrow> pyfloat list \<Rightarrow> pyfloat \<Rightarrow> pyfloat" where
  "mean_max0 u v lift =
     np_mean (map (\<lambda>d. np_maximum d (Fl 0)) (map (\<lambda>d. fsub d lift) (map2 fsub u v)))"

text \<open>
  \<open>probability(self, method, variant, lift)\<close>. In the exact branch the names bound to
  numbers are \<open>lift\<close> and the eight posterior parameters assigned at its start; \<open>sigA\<close> and
  \<open>sigB\<close> are looked up when the argument of \<open>np.hypot\<close> is evaluated. The result is
  paired with the state of the process-wide generator after the call.
\<close>

definition probability ::
  "'g primitives \<Rightarrow> NormalInverseGammaABTest \<Rightarrow> string \<Rightarrow> string \<Rightarrow> pyfloat \<Rightarrow> 'g
     \<Rightarrow> error + (pyresult \<times> 'g)" where
  "probability P self method variant lift g =
     bind_err (check_ab_method method [''exact'', ''MC''] variant lift) (\<lambda>_.
     if method = ''exact'' then
       (let muA = loc_posterior (modelA self);
            laA = variance_scale_posterior (modelA self);
            aA = shape_posterior (modelA self);
            bA = scale_posterior (modelA self);
            muB = loc_posterior (modelB self);
            laB = variance_scale_posterior (modelB self);
            aB = shape_posterior (modelB self);
            bB = scale_posterior (modelB self);
            scope = [(''lift'', lift), (''muA'', muA), (''laA'', laA), (''aA'', aA), (''bA'', bA),
                     (''muB'', muB), (''laB'', laB), (''aB'', aB), (''bB'', bB)]
        in
        if variant = ''A'' then
          bind_err (load_name scope ''sigA'') (\<lambda>sigA.
          bind_err (load_name scope ''sigB'') (\<lambda>sigB.
          let prob_mean = norm_cdf P (np_div (fsub muA muB) (np_hypot P sigA sigB)) in
          bind_err (py_div bA (fadd bA bB)) (\<lambda>p.
          let prob_var = betainc P aA aB p in
          Inr (R2 prob_mean prob_var, g))))
        else if variant = ''B'' then
          bind_err (load_name scope ''sigA'') (\<lambda>sigA.
          bind_err (load_name scope ''sigB'') (\<lambda>sigB.
          let prob_mean = norm_cdf P (np_div (fsub muB muA) (np_hypot P sigA sigB)) in
          bind_err (py_div bB (fadd bA bB)) (\<lambda>p.
          let prob_var = betainc P aB aA p in
          Inr (R2 prob_mean prob_var, g))))
        else
          bind_err (load_name scope ''sigA'') (\<lambda>sigA.
          bind_err (load_name scope ''sigB'') (\<lambda>sigB.
          let prob_mean_A = norm_cdf P (np_div (fsub muA muB) (np_hypot P sigA sigB)) in
          bind_err (py_div bA (fadd bA bB)) (\<lambda>pA.
          let prob_var_A = betainc P aA aB pA in
          bind_err (load_name scope ''sigA'') (\<lambda>sigA'.
          bind_err (load_name scope ''sigB'') (\<lambda>sigB'.
          let prob_mean_B = norm_cdf P (np_div (fsub muB muA) (np_hypot P sigA' sigB')) in
          bind_err (py_div bB (fadd bA bB)) (\<lambda>pB.
          let prob_var_B = betainc P aB aA pB in
          Inr (R4 prob_mean_A prob_var_A prob_mean_B prob_var_B, g))))))))
     else
       bind_err (NormalInverseGammaModel_rvs P (modelA self) (simulations self) (random_state self) g)
         (\<lambda>(data_A, g1).
       bind_err (NormalInverseGammaModel_rvs P (modelB self) (simulations self) (random_state self) g1)
         (\<lambda>(data_B, g2).
       let xA = map fst data_A; sig2A = map snd data_A;
           xB = map fst data_B; sig2B = map snd data_B
       in
       if variant = ''A'' then
         Inr (R2 (mean_gt xA xB lift) (mean_gt sig2A sig2B lift), g2)
       else if variant = ''B'' then
         Inr (R2 (mean_gt xB xA lift) (mean_gt sig2B sig2A lift), g2)
       else
         Inr (R4 (mean_gt xA xB lift) (mean_gt sig2A sig2B lift)
                 (mean_gt xB xA lift) (mean_gt sig2B sig2A lift), g2))))"

text \<open>
  \<open>expected_loss(self, method, variant, lift)\<close>. The exact branch reads the eight
  posterior parameters and then executes \<open>pass\<close> for every variant, so the call falls off
  the end of the function and returns \<open>None\<close>.
\<close>

definition expected_loss ::
  "'g primitives \<Rightarrow> NormalInverseGammaABTest \<Rightarrow> string \<Rightarrow> string \<Rightarrow> pyfloat \<Rightarrow> 'g
     \<Rightarrow> error + (pyresult \<times> 'g)" where
  "expected_loss P self method variant lift g =
     bind_err (check_ab_method method [''exact'', ''MC''] variant lift) (\<lambda>_.
     if method = ''exact'' then
       (let muA = loc_posterior (modelA self);
            laA = variance_scale_posterior (modelA self);
            aA = shape_posterior (modelA self);
            bA = scale_posterior (modelA self);
            muB = loc_posterior (modelB self);
            laB = variance_scale_posterior (modelB self);
            aB = shape_posterior (modelB self);
            bB = scale_posterior (modelB self)
        in
        if variant = ''A'' then Inr (RNone, g)
        else if variant = ''B'' then Inr (RNone, g)
        else Inr (RNone, g))
     else
       bind_err (NormalInverseGammaModel_rvs P (modelA self) (simulations self) (random_state self) g)
         (\<lambda>(data_A, g1).
       bind_err (NormalInverseGammaModel_rvs P (modelB self) (simulations self) (random_state self) g1)
         (\<lambda>(data_B, g2).
       let xA = map fst data_A; sig2A = map snd data_A;
           xB = map fst data_B; sig2B = map snd data_B
       in
       if variant = ''A'' then
         Inr (R2 (mean_max0 xB xA lift) (mean_max0 sig2B sig2A lift), g2)
       else if variant = ''B'' then
         Inr (R2 (mean_max0 xA xB lift) (mean_max0 sig2A sig2B lift), g2)
       else
         Inr (R4 (mean_max0 xB xA lift) (mean_max0 sig2B sig2A lift)
                 (mean_max0 xA xB lift) (mean_max0 sig2A sig2B lift), g2))))"

text \<open>
  The specification's wording of the simulated expected loss: over \<open>n\<close> draws, the
  empirical mean of \<open>max(other\<^sub>i - self\<^sub>i - lift, 0)\<close>, written draw by draw.
\<close>

definition empirical_mean_loss :: "nat \<Rightarrow> pyfloat list \<Rightarrow> pyfloat list \<Rightarrow> pyfloat \<Rightarrow> pyfloat" where
  "empirical_mean_loss n other chosen lift =
     np_div
       (foldl fadd (Fl 0)
          (map (\<lambda>i. np_maximum (fsub (fsub (other ! i) (chosen ! i)) lift) (Fl 0)) [0..<n]))
       (Fl (real n))"

section \<open>Concrete inputs\<close>

text \<open>
  A small deterministic stand-in for the external primitives, used to run the model: the
  generator state is a counter, a seed \<open>s\<close> starts it at \<open>|s|\<close>, and each draw returns a
  value computed from the counter and advances it.
\<close>

definition toy_primitives :: "nat primitives" where
  "toy_primitives =
     \<lparr>norm_cdf = (\<lambda>z. z),
      np_hypot = (\<lambda>u v. fadd u v),
      betainc = (\<lambda>a b p. p),
      np_sqrt = (\<lambda>z. z),
      seeded = (\<lambda>s. nat \<bar>s\<bar>),
      invgamma_draw = (\<lambda>a s g. (Fl (real (Suc g)), Suc g)),
      norm_draw = (\<lambda>l s g. (fadd l (Fl (real g)), Suc g))\<rparr>"

text \<open>The model built by \<open>NormalInverseGammaModel()\<close> with the default arguments, and one with another location.\<close>

definition default_model :: NormalInverseGammaModel where
  "default_model =
     \<lparr>name = [],
      prior_loc = Fl (1 / 1000), prior_variance_scale = Fl (1 / 1000),
      prior_shape = Fl (1 / 1000), prior_scale = Fl (1 / 1000),
      loc_posterior = Fl (1 / 1000), variance_scale_posterior = Fl (1 / 1000),
      shape_posterior = Fl (1 / 1000), scale_posterior = Fl (1 / 1000)\<rparr>"

definition shifted_model :: NormalInverseGammaModel where
  "shifted_model = default_model\<lparr>prior_loc := Fl 3, loc_posterior := Fl 3\<rparr>"

definition toy_test :: NormalInverseGammaABTest where
  "toy_test = \<lparr>modelA = default_model, modelB = shifted_model, simulations = 2, random_state = Some 7\<rparr>"

section \<open>The binomial model: results\<close>




text \<open>
  Claim C9. For every argument tuple \<open>(m, alpha, beta)\<close>, and whatever the constructor of
  the base class does, the constructor of \<open>BinomialModel\<close> raises \<open>NameError\<close> for the name
  \<open>neta\<close>; it never returns an instance.
\<close>

theorem BinomialModel_init_NameError:
  "BinomialModel_init BetaModel_init m alpha beta = Inl (NameError ''neta'')
   \<and> (\<forall>inst. BinomialModel_init BetaModel_init m alpha beta \<noteq> Inr inst)"
  by (simp add: BinomialModel_init_def bind_err_def load_name_def)

section \<open>The normal-inverse-gamma distribution and model: results\<close>












text \<open>A model returned by the constructor has posterior parameters the distribution accepts.\<close>

lemma init_posterior_distribution:
  assumes "NormalInverseGammaModel_init BayesModel_init nm l v a b = Inr self"
  shows "posterior_distribution self = Inr \<lparr>loc = l, variance_scale = v, shape = a, scale = b\<rparr>"
  using assms
  by (auto simp: NormalInverseGammaModel_init_def posterior_distribution_def
      NormalInverseGamma_init_def bind_err_def split: sum.splits if_splits)

text \<open>
  Claim C10. For every model the constructor returns and every input \<open>x\<close>,
  \<open>NormalInverseGammaModel.cdf\<close> raises \<open>NameError\<close> for the name \<open>sig2\<close>, which is neither
  a parameter of the method nor bound in its scope; the method of the distribution is never
  reached.
\<close>

theorem NormalInverseGammaModel_cdf_NameError:
  assumes "NormalInverseGammaModel_init BayesModel_init nm l v a b = Inr self"
  shows "NormalInverseGammaModel_cdf dist_cdf self x = Inl (NameError ''sig2'')"
  using init_posterior_distribution [OF assms]
  by (simp add: NormalInverseGammaModel_cdf_def bind_err_def load_name_def)

text \<open>The model with the default arguments, queried at two points.\<close>

theorem NormalInverseGammaModel_cdf_NameError_witness:
  "NormalInverseGammaModel_init (\<lambda>_. Inr ()) [] (Fl (1 / 1000)) (Fl (1 / 1000)) (Fl (1 / 1000)) (Fl (1 / 1000))
     = Inr default_model
   \<and> NormalInverseGammaModel_cdf (\<lambda>d x s. Inr x) default_model [Fl 0, Fl 1] = Inl (NameError ''sig2'')"
proof -
  have h: "NormalInverseGammaModel_init (\<lambda>_. Inr ()) [] (Fl (1 / 1000)) (Fl (1 / 1000)) (Fl (1 / 1000)) (Fl (1 / 1000))
     = Inr default_model"
    by (simp add: NormalInverseGammaModel_init_def default_model_def bind_err_def)
  show ?thesis using h NormalInverseGammaModel_cdf_NameError [OF h] by simp
qed

section \<open>The A/B test: results\<close>

text \<open>
  Claim C1. The claim is that \<open>probability\<close> with \<open>method = "exact"\<close>, \<open>variant = "A"\<close> and
  \<open>lift = 0\<close> returns the pair of the normal-approximation probability and the incomplete
  beta value. The code does not get that far: for every pair of models the call raises
  \<open>NameError\<close>, because the spreads \<open>sigA\<close> and \<open>sigB\<close> passed to \<open>np.hypot\<close> are never
  computed.
\<close>

theorem probability_exact_NameError:
  "probability P self ''exact'' ''A'' (Fl 0) g = Inl (NameError ''sigA'')"
  by (simp add: probability_def check_ab_method_def bind_err_def load_name_def)

text \<open>
  Claim C2. For every variant and every \<open>lift > 0\<close>, \<open>probability\<close> and \<open>expected_loss\<close>
  with \<open>method = "exact"\<close> fail with \<open>UnsupportedConfiguration\<close>. The validation comes
  first: the failure is the one of the check, not the \<open>NameError\<close> of the exact branch, it
  does not depend on the generator, and no generator state is produced.
\<close>

theorem exact_with_lift_rejected:
  assumes "fgt lift (Fl 0)"
  shows "probability P self ''exact'' variant lift g = Inl UnsupportedConfiguration
       \<and> expected_loss P self ''exact'' variant lift g = Inl UnsupportedConfiguration"
  using assms by (simp add: probability_def expected_loss_def check_ab_method_def bind_err_def)

theorem exact_with_lift_rejected_witness:
  "fgt (Fl (1 / 2)) (Fl 0)
   \<and> probability toy_primitives toy_test ''exact'' ''both'' (Fl (1 / 2)) 0 = Inl UnsupportedConfiguration
   \<and> expected_loss toy_primitives toy_test ''exact'' ''both'' (Fl (1 / 2)) 0 = Inl UnsupportedConfiguration"
  using exact_with_lift_rejected [of "Fl (1 / 2)" toy_primitives toy_test "''both''" 0] by simp



subsection \<open>Monte Carlo branches\<close>

lemma length_invgamma_rvs: "length (fst (invgamma_rvs P a s n g)) = n"
  by (induction n arbitrary: g) (simp_all add: split_beta Let_def)

lemma length_norm_rvs: "length (fst (norm_rvs P l ss g)) = length ss"
  by (induction ss arbitrary: g) (simp_all add: split_beta Let_def)

lemma fst_with_random_state:
  "fst (with_random_state P rs draw g) =
     fst (draw (case rs of None \<Rightarrow> g | Some seed \<Rightarrow> seeded P seed))"
  by (simp add: with_random_state_def split: option.splits)

text \<open>A sample matrix has as many rows as draws were requested.\<close>

lemma length_NormalInverseGamma_rvs:
  "length (fst (NormalInverseGamma_rvs P d n rs g)) = n"
  by (simp add: NormalInverseGamma_rvs_def split_beta Let_def fst_with_random_state
      length_invgamma_rvs length_norm_rvs)

text \<open>On arrays of \<open>n\<close> entries the vectorised expression is the draw-by-draw mean.\<close>

lemma mean_max0_empirical:
  assumes "length u = n" and "length v = n"
  shows "mean_max0 u v lift = empirical_mean_loss n u v lift"
proof -
  have "map (\<lambda>d. np_maximum d (Fl 0)) (map (\<lambda>d. fsub d lift) (map2 fsub u v))
      = map (\<lambda>i. np_maximum (fsub (fsub (u ! i) (v ! i)) lift) (Fl 0)) [0..<n]"
    using assms by (intro nth_equalityI) simp_all
  then show ?thesis
    using assms by (simp add: mean_max0_def empirical_mean_loss_def np_mean_def)
qed

text \<open>
  Claim C5. Let both models have posterior parameters the distribution accepts, and let
  \<open>data_A\<close> and \<open>data_B\<close> be the sample matrices the call draws from them, one row per
  simulation. Then for every \<open>lift\<close>, \<open>expected_loss\<close> with \<open>method = "MC"\<close> returns, for the
  location column and for the dispersion column, the empirical mean over the draws of
  \<open>max(other - self - lift, 0)\<close>: with \<open>variant = "A"\<close> the other variant is B, with
  \<open>variant = "B"\<close> it is A.
\<close>

theorem expected_loss_MC_empirical_mean:
  assumes "posterior_distribution (modelA self) = Inr dA"
      and "posterior_distribution (modelB self) = Inr dB"
      and "NormalInverseGamma_rvs P dA (simulations self) (random_state self) g = (data_A, g1)"
      and "NormalInverseGamma_rvs P dB (simulations self) (random_state self) g1 = (data_B, g2)"
  shows "length data_A = simulations self \<and> length data_B = simulations self
    \<and> expected_loss P self ''MC'' ''A'' lift g =
        Inr (R2 (empirical_mean_loss (simulations self) (map fst data_B) (map fst data_A) lift)
                (empirical_mean_loss (simulations self) (map snd data_B) (map snd data_A) lift), g2)
    \<and> expected_loss P self ''MC'' ''B'' lift g =
        Inr (R2 (empirical_mean_loss (simulations self) (map fst data_A) (map fst data_B) lift)
                (empirical_mean_loss (simulations self) (map snd data_A) (map snd data_B) lift), g2)"
proof -
  have lA: "length data_A = simulations self"
    using length_NormalInverseGamma_rvs [of P dA "simulations self" "random_state self" g] assms(3)
    by simp
  have lB: "length data_B = simulations self"
    using length_NormalInverseGamma_rvs [of P dB "simulations self" "random_state self" g1] assms(4)
    by simp
  have eq: "\<And>f f'. mean_max0 (map f data_B) (map f' data_A) lift
      = empirical_mean_loss (simulations self) (map f data_B) (map f' data_A) lift"
    "\<And>f f'. mean_max0 (map f data_A) (map f' data_B) lift
      = empirical_mean_loss (simulations self) (map f data_A) (map f' data_B) lift"
    using lA lB by (simp_all add: mean_max0_empirical)
  show ?thesis
    using assms lA lB
    by (simp add: expected_loss_def check_ab_method_def bind_err_def
        NormalInverseGammaModel_rvs_def eq)
qed

text \<open>The test \<open>toy_test\<close>: two draws with seed 7 from the default model and from the shifted one.\<close>

lemma toy_posterior_A:
  "posterior_distribution (modelA toy_test)
     = Inr \<lparr>loc = Fl (1 / 1000), variance_scale = Fl (1 / 1000), shape = Fl (1 / 1000), scale = Fl (1 / 1000)\<rparr>"
  by (simp add: toy_test_def default_model_def posterior_distribution_def NormalInverseGamma_init_def)

lemma toy_posterior_B:
  "posterior_distribution (modelB toy_test)
     = Inr \<lparr>loc = Fl 3, variance_scale = Fl (1 / 1000), shape = Fl (1 / 1000), scale = Fl (1 / 1000)\<rparr>"
  by (simp add: toy_test_def default_model_def shifted_model_def posterior_distribution_def
      NormalInverseGamma_init_def)

lemma toy_draws_A:
  "NormalInverseGamma_rvs toy_primitives
     \<lparr>loc = Fl (1 / 1000), variance_scale = Fl (1 / 1000), shape = Fl (1 / 1000), scale = Fl (1 / 1000)\<rparr>
     (simulations toy_test) (random_state toy_test) g
   = ([(Fl (7001 / 1000), Fl 8), (Fl (8001 / 1000), Fl 9)], g)"
  by (simp add: toy_test_def NormalInverseGamma_rvs_def with_random_state_def toy_primitives_def
      numeral_2_eq_2)

lemma toy_draws_B:
  "NormalInverseGamma_rvs toy_primitives
     \<lparr>loc = Fl 3, variance_scale = Fl (1 / 1000), shape = Fl (1 / 1000), scale = Fl (1 / 1000)\<rparr>
     (simulations toy_test) (random_state toy_test) g
   = ([(Fl 10, Fl 8), (Fl 11, Fl 9)], g)"
  by (simp add: toy_test_def NormalInverseGamma_rvs_def with_random_state_def toy_primitives_def
      numeral_2_eq_2)

theorem expected_loss_MC_empirical_mean_witness:
  "posterior_distribution (modelA toy_test)
     = Inr \<lparr>loc = Fl (1 / 1000), variance_scale = Fl (1 / 1000), shape = Fl (1 / 1000), scale = Fl (1 / 1000)\<rparr>
   \<and> posterior_distribution (modelB toy_test)
     = Inr \<lparr>loc = Fl 3, variance_scale = Fl (1 / 1000), shape = Fl (1 / 1000), scale = Fl (1 / 1000)\<rparr>
   \<and> expected_loss toy_primitives toy_test ''MC'' ''A'' (Fl 0) 0 = Inr (R2 (Fl (2999 / 1000)) (Fl 0), 0)
   \<and> expected_loss toy_primitives toy_test ''MC'' ''B'' (Fl 0) 0 = Inr (R2 (Fl 0) (Fl 0), 0)
   \<and> expected_loss toy_primitives toy_test ''MC'' ''A'' (Fl 1) 0 = Inr (R2 (Fl (1999 / 1000)) (Fl 0), 0)"
  using toy_posterior_A toy_posterior_B
    expected_loss_MC_empirical_mean [OF toy_posterior_A toy_posterior_B
        toy_draws_A [of 0] toy_draws_B [of 0], where lift = "Fl 0"]
    expected_loss_MC_empirical_mean [OF toy_posterior_A toy_posterior_B
        toy_draws_A [of 0] toy_draws_B [of 0], where lift = "Fl 1"]
  by (simp add: empirical_mean_loss_def toy_test_def fsub_def numeral_2_eq_2)

text \<open>
  With an integer seed every draw starts from the generator created from that seed, and the
  process-wide generator is neither read nor advanced.
\<close>

lemma with_random_state_seeded:
  "with_random_state P (Some s) draw g = (fst (draw (seeded P s)), g)"
  by (simp add: with_random_state_def)

lemma NormalInverseGamma_rvs_seeded:
  "NormalInverseGamma_rvs P d n (Some s) g = (fst (NormalInverseGamma_rvs P d n (Some s) g0), g)"
  by (simp add: NormalInverseGamma_rvs_def with_random_state_seeded split_beta Let_def)

lemma NormalInverseGammaModel_rvs_seeded:
  "NormalInverseGammaModel_rvs P M n (Some s) g =
     bind_err (posterior_distribution M)
       (\<lambda>d. Inr (fst (NormalInverseGamma_rvs P d n (Some s) (seeded P s)), g))"
  using NormalInverseGamma_rvs_seeded [of P _ n s g "seeded P s"]
  by (simp add: NormalInverseGammaModel_rvs_def bind_err_def split: sum.splits)

lemma probability_MC_seeded:
  assumes "random_state self = Some s"
  shows "probability P self ''MC'' variant lift g =
     bind_err (NormalInverseGammaModel_rvs P (modelA self) (simulations self) (Some s) g0)
       (\<lambda>(data_A, _).
     bind_err (NormalInverseGammaModel_rvs P (modelB self) (simulations self) (Some s) g0)
       (\<lambda>(data_B, _).
       if variant = ''A'' then
         Inr (R2 (mean_gt (map fst data_A) (map fst data_B) lift)
                 (mean_gt (map snd data_A) (map snd data_B) lift), g)
       else if variant = ''B'' then
         Inr (R2 (mean_gt (map fst data_B) (map fst data_A) lift)
                 (mean_gt (map snd data_B) (map snd data_A) lift), g)
       else
         Inr (R4 (mean_gt (map fst data_A) (map fst data_B) lift)
                 (mean_gt (map snd data_A) (map snd data_B) lift)
                 (mean_gt (map fst data_B) (map fst data_A) lift)
                 (mean_gt (map snd data_B) (map snd data_A) lift), g)))"
  using assms
  by (simp add: probability_def check_ab_method_def NormalInverseGammaModel_rvs_seeded
      bind_err_def Let_def split: sum.splits)

lemma expected_loss_MC_seeded:
  assumes "random_state self = Some s"
  shows "expected_loss P self ''MC'' variant lift g =
     bind_err (NormalInverseGammaModel_rvs P (modelA self) (simulations self) (Some s) g0)
       (\<lambda>(data_A, _).
     bind_err (NormalInverseGammaModel_rvs P (modelB self) (simulations self) (Some s) g0)
       (\<lambda>(data_B, _).
       if variant = ''A'' then
         Inr (R2 (mean_max0 (map fst data_B) (map fst data_A) lift)
                 (mean_max0 (map snd data_B) (map snd data_A) lift), g)
       else if variant = ''B'' then
         Inr (R2 (mean_max0 (map fst data_A) (map fst data_B) lift)
                 (mean_max0 (map snd data_A) (map snd data_B) lift), g)
       else
         Inr (R4 (mean_max0 (map fst data_B) (map fst data_A) lift)
                 (mean_max0 (map snd data_B) (map snd data_A) lift)
                 (mean_max0 (map fst data_A) (map fst data_B) lift)
                 (mean_max0 (map snd data_A) (map snd data_B) lift), g)))"
  using assms
  by (simp add: expected_loss_def check_ab_method_def NormalInverseGammaModel_rvs_seeded
      bind_err_def Let_def split: sum.splits)

text \<open>
  Claim C8. Let the test have the integer seed \<open>s\<close>, and let the pseudo-random source be a
  function of the generator state, as the primitives of the model are. Then with
  \<open>method = "MC"\<close>, \<open>probability\<close> and \<open>expected_loss\<close> return the same result (or raise the
  same error) whatever the state \<open>g\<close> or \<open>g'\<close> of the process-wide generator, so two calls
  with identical arguments agree; and the result is computed from the sample of model A
  drawn with seed \<open>s\<close> and the sample of model B drawn with the same seed \<open>s\<close>, leaving the
  process-wide generator as it was.
\<close>

theorem MC_reproducible_with_seed:
  assumes "random_state self = Some s"
  shows "map_sum id fst (probability P self ''MC'' variant lift g)
           = map_sum id fst (probability P self ''MC'' variant lift g')
    \<and> map_sum id fst (expected_loss P self ''MC'' variant lift g)
           = map_sum id fst (expected_loss P self ''MC'' variant lift g')
    \<and> (NormalInverseGammaModel_rvs P (modelA self) (simulations self) (Some s) g0 = Inr (data_A, gA)
        \<and> NormalInverseGammaModel_rvs P (modelB self) (simulations self) (Some s) g0 = Inr (data_B, gB)
        \<longrightarrow> probability P self ''MC'' ''A'' lift g =
              Inr (R2 (mean_gt (map fst data_A) (map fst data_B) lift)
                      (mean_gt (map snd data_A) (map snd data_B) lift), g)
          \<and> expected_loss P self ''MC'' ''A'' lift g =
              Inr (R2 (mean_max0 (map fst data_B) (map fst data_A) lift)
                      (mean_max0 (map snd data_B) (map snd data_A) lift), g))"
proof -
  have p: "map_sum id fst (probability P self ''MC'' variant lift g)
           = map_sum id fst (probability P self ''MC'' variant lift g')"
    by (simp add: probability_MC_seeded [OF assms, of P variant lift _ g0] bind_err_def
        split: sum.splits prod.splits)
  have e: "map_sum id fst (expected_loss P self ''MC'' variant lift g)
           = map_sum id fst (expected_loss P self ''MC'' variant lift g')"
    by (simp add: expected_loss_MC_seeded [OF assms, of P variant lift _ g0] bind_err_def
        split: sum.splits prod.splits)
  have d: "NormalInverseGammaModel_rvs P (modelA self) (simulations self) (Some s) g0 = Inr (data_A, gA)
        \<and> NormalInverseGammaModel_rvs P (modelB self) (simulations self) (Some s) g0 = Inr (data_B, gB)
        \<longrightarrow> probability P self ''MC'' ''A'' lift g =
              Inr (R2 (mean_gt (map fst data_A) (map fst data_B) lift)
                      (mean_gt (map snd data_A) (map snd data_B) lift), g)
          \<and> expected_loss P self ''MC'' ''A'' lift g =
              Inr (R2 (mean_max0 (map fst data_B) (map fst data_A) lift)
                      (mean_max0 (map snd data_B) (map snd data_A) lift), g)"
    by (simp add: probability_MC_seeded [OF assms, of P _ lift g g0]
        expected_loss_MC_seeded [OF assms, of P _ lift g g0] bind_err_def)
  from p e d show ?thesis by blast
qed

text \<open>
  On \<open>toy_test\<close>, whose seed is 7: the results at the generator states 0 and 5 agree, and
  both samples are the ones drawn with seed 7.
\<close>

theorem MC_reproducible_with_seed_witness:
  "random_state toy_test = Some 7
   \<and> map_sum id fst (probability toy_primitives toy_test ''MC'' ''B'' (Fl 0) 0)
       = map_sum id fst (probability toy_primitives toy_test ''MC'' ''B'' (Fl 0) 5)
   \<and> map_sum id fst (expected_loss toy_primitives toy_test ''MC'' ''B'' (Fl 0) 0)
       = map_sum id fst (expected_loss toy_primitives toy_test ''MC'' ''B'' (Fl 0) 5)
   \<and> NormalInverseGammaModel_rvs toy_primitives (modelA toy_test) (simulations toy_test) (Some 7) 3
       = Inr ([(Fl (7001 / 1000), Fl 8), (Fl (8001 / 1000), Fl 9)], 3)
   \<and> NormalInverseGammaModel_rvs toy_primitives (modelB toy_test) (simulations toy_test) (Some 7) 3
       = Inr ([(Fl 10, Fl 8), (Fl 11, Fl 9)], 3)
   \<and> probability toy_primitives toy_test ''MC'' ''A'' (Fl 0) 0 = Inr (R2 (Fl 0) (Fl 0), 0)
   \<and> expected_loss toy_primitives toy_test ''MC'' ''A'' (Fl 0) 0 = Inr (R2 (Fl (2999 / 1000)) (Fl 0), 0)"
proof -
  have h: "random_state toy_test = Some 7"
    by (simp add: toy_test_def)
  have a: "NormalInverseGammaModel_rvs toy_primitives (modelA toy_test) (simulations toy_test) (Some 7) 3
       = Inr ([(Fl (7001 / 1000), Fl 8), (Fl (8001 / 1000), Fl 9)], 3)"
    using toy_draws_A [of 3] by (simp add: NormalInverseGammaModel_rvs_def toy_posterior_A bind_err_def h)
  have b: "NormalInverseGammaModel_rvs toy_primitives (modelB toy_test) (simulations toy_test) (Some 7) 3
       = Inr ([(Fl 10, Fl 8), (Fl 11, Fl 9)], 3)"
    using toy_draws_B [of 3] by (simp add: NormalInverseGammaModel_rvs_def toy_posterior_B bind_err_def h)
  show ?thesis
    using h a b
      MC_reproducible_with_seed [OF h, where P = toy_primitives and variant = "''B''"
        and lift = "Fl 0" and g = 0 and g' = 5 and ?g0.0 = 3 and gA = 3 and gB = 3
        and data_A = "[(Fl (7001 / 1000), Fl 8), (Fl (8001 / 1000), Fl 9)]"
        and data_B = "[(Fl 10, Fl 8), (Fl 11, Fl 9)]"]
    by (simp add: mean_gt_def mean_max0_def np_mean_bool_def np_mean_def fsub_def)
qed

text \<open>
  The hypothesis on the seed is needed. On \<open>toy_test\<close> with seed 7 the dispersion samples
  of A and B coincide, so B's dispersion never exceeds A's; with \<open>random_state = None\<close> the
  sample of B is drawn after the one of A from the process-wide generator, the result
  differs, and the generator has advanced.
\<close>

lemma unseeded_draws_differ:
  "probability toy_primitives toy_test ''MC'' ''B'' (Fl 0) 0 = Inr (R2 (Fl 1) (Fl 0), 0)
   \<and> probability toy_primitives (toy_test\<lparr>random_state := None\<rparr>) ''MC'' ''B'' (Fl 0) 0
       = Inr (R2 (Fl 1) (Fl 1), 8)"
  by (simp add: probability_def check_ab_method_def bind_err_def NormalInverseGammaModel_rvs_def
      posterior_distribution_def NormalInverseGamma_init_def NormalInverseGamma_rvs_def
      with_random_state_def toy_test_def default_model_def shifted_model_def toy_primitives_def
      mean_gt_def np_mean_bool_def np_mean_def numeral_2_eq_2)

end
